theory Spec2Isabelle
  imports Complex_Main "HOL-Library.Word"
begin

section \<open>Errors raised by the cache code\<close>

text \<open>
  The Python exceptions that the modelled methods can raise. A missing dictionary key
  raises the built-in \<open>KeyError\<close>, a float division by zero raises
  \<open>ZeroDivisionError\<close>, calling an object that is not callable raises
  \<open>TypeError\<close>, and \<open>asyncio.create_task\<close> without a running event loop raises
  \<open>RuntimeError\<close>. \<open>Raised\<close> stands for whatever an awaited remote call raises.
\<close>

datatype error = KeyError | ZeroDivisionError | TypeError | RuntimeError | Raised string

section \<open>CacheStats (memory/base.py)\<close>

text \<open>
  A \<open>datetime\<close> is modelled as an integer count of microseconds, the resolution of
  Python's \<open>datetime\<close>; the difference of two of them is a \<open>timedelta\<close>, again in
  microseconds. Every method that calls \<open>datetime.datetime.now()\<close> takes the clock
  reading as its first argument \<open>now\<close>. Python floats are idealised as real numbers.
  The field \<open>_score\<close> is called \<open>score_field\<close>, and \<open>size\<close> is called
  \<open>size_bytes\<close>.
\<close>

type_synonym datetime = int

type_synonym timedelta = int

record CacheStats =
  hit_count :: int
  last_hit :: datetime
  size_bytes :: int
  recency :: real
  size_factor :: real
  score_field :: real

definition CacheStats_init :: "datetime \<Rightarrow> int \<Rightarrow> CacheStats" where
  "CacheStats_init now sz =
     \<lparr>hit_count = 0, last_hit = now, size_bytes = sz,
      recency = 1, size_factor = 1, score_field = 0.5\<rparr>"

text \<open>
  \<open>hit(size=None)\<close>: the argument is \<open>None\<close> when it is not given. The guard
  \<open>if size:\<close> tests truthiness, which is false for \<open>None\<close> and for \<open>0\<close>.
\<close>

definition hit :: "datetime \<Rightarrow> int option \<Rightarrow> CacheStats \<Rightarrow> CacheStats" where
  "hit now sz s =
     (let s1 = s\<lparr>hit_count := hit_count s + 1\<rparr>;
          s2 = s1\<lparr>last_hit := now\<rparr>
      in case sz of
           None \<Rightarrow> s2
         | Some n \<Rightarrow> if n \<noteq> 0 then s2\<lparr>size_bytes := n\<rparr> else s2)"

definition total_seconds :: "timedelta \<Rightarrow> real" where
  "total_seconds d = real_of_int d / 1000000"

text \<open>
  The \<open>score\<close> property. It writes \<open>recency\<close>, \<open>size_factor\<close> and \<open>_score\<close>
  in this order and returns \<open>_score\<close>; a zero denominator raises
  \<open>ZeroDivisionError\<close> and leaves what was written before it.
\<close>

definition score :: "datetime \<Rightarrow> CacheStats \<Rightarrow> (error + real) \<times> CacheStats" where
  "score now s =
     (let d1 = 1 + total_seconds (now - last_hit s) / 3600 in
      if d1 = 0 then (Inl ZeroDivisionError, s)
      else
        let s1 = s\<lparr>recency := 1 / d1\<rparr>;
            d2 = 1 + real_of_int (size_bytes s1) / real_of_int (1024 * 1024) in
        if d2 = 0 then (Inl ZeroDivisionError, s1)
        else
          let s2 = s1\<lparr>size_factor := 1 / d2\<rparr>;
              s3 = s2\<lparr>score_field :=
                     0.5 * real_of_int (hit_count s2) + 0.3 * recency s2 + 0.2 * size_factor s2\<rparr>
          in (Inr (score_field s3), s3))"

section \<open>Cells (memory/base.py, ram.py, disk.py, cloud.py)\<close>

text \<open>
  A \<open>MemoryCell\<close> holds a key, an entity and its \<open>CacheStats\<close>; the logger is an
  external collaborator and is left out. The entity of a \<open>RAMCell\<close> is a byte string
  or \<open>None\<close>, that of a \<open>DiskCell\<close> a path or \<open>None\<close>.
\<close>

type_synonym bytes = "8 word list"

record 'e MemoryCell =
  key :: string
  entity :: 'e
  stats :: CacheStats

type_synonym RAMCell = "bytes option MemoryCell"

type_synonym DiskCell = "string option MemoryCell"

text \<open>
  The entity of a \<open>CloudCell\<close> is the pair \<open>(args, kwargs)\<close> it was built with, the
  byte string stored by \<open>__set__\<close>, or \<open>None\<close> after \<open>__del__\<close>. The type
  \<open>'a\<close> stands for \<open>Any\<close>.
\<close>

datatype 'a cloud_entity =
    Arguments "'a list" "(string \<times> 'a) list"
  | Content bytes
  | NoEntity

text \<open>
  \<open>call_fn\<close> is a \<open>Callable\<close> or a \<open>Future\<close>. Awaiting the call of a callable
  on the entity either raises or resolves to a value; a \<open>Future\<close> object cannot be
  called.
\<close>

datatype 'a call_fn =
    Callable "'a cloud_entity \<Rightarrow> error + bytes"
  | Future "(error + bytes) option"

record 'a CloudCell = "'a cloud_entity MemoryCell" +
  call_fn :: "'a call_fn"

text \<open>\<open>RAMCell\<close>: \<open>__get__\<close>, \<open>__set__\<close>, \<open>__del__\<close>, \<open>__sizeof__\<close>.\<close>

definition RAMCell_get :: "RAMCell \<Rightarrow> bytes option" where
  "RAMCell_get c = entity c"

definition RAMCell_set :: "bytes \<Rightarrow> RAMCell \<Rightarrow> RAMCell" where
  "RAMCell_set v c = c\<lparr>entity := Some v\<rparr>"

definition RAMCell_del :: "RAMCell \<Rightarrow> RAMCell" where
  "RAMCell_del c = c\<lparr>entity := None\<rparr>"

definition RAMCell_sizeof :: "RAMCell \<Rightarrow> int" where
  "RAMCell_sizeof c =
     (case entity c of None \<Rightarrow> 0 | Some b \<Rightarrow> if b \<noteq> [] then int (length b) else 0)"

text \<open>
  \<open>await_call\<close> is the expression \<open>await self.call_fn(self.entity)\<close>.
  \<open>CloudCell.__get__\<close> evaluates it and has no \<open>return\<close> statement, so a
  call that resolves makes it return \<open>None\<close>; the result type is an optional byte
  string for that reason.
\<close>

definition await_call :: "'a CloudCell \<Rightarrow> error + bytes" where
  "await_call c =
     (case call_fn c of
        Future f \<Rightarrow> Inl TypeError
      | Callable g \<Rightarrow> g (entity c))"

definition CloudCell_get :: "'a CloudCell \<Rightarrow> error + bytes option" where
  "CloudCell_get c = (case await_call c of Inl e \<Rightarrow> Inl e | Inr r \<Rightarrow> Inr None)"

definition CloudCell_set :: "bytes \<Rightarrow> 'a CloudCell \<Rightarrow> 'a CloudCell" where
  "CloudCell_set v c = c\<lparr>entity := Content v\<rparr>"

definition CloudCell_del :: "'a CloudCell \<Rightarrow> 'a CloudCell" where
  "CloudCell_del c = c\<lparr>entity := NoEntity\<rparr>"

text \<open>
  \<open>len(self.entity) if self.entity else 0\<close>: a pair is a tuple of length two and is
  always truthy, a byte string is truthy when it is not empty.
\<close>

definition CloudCell_sizeof :: "'a CloudCell \<Rightarrow> int" where
  "CloudCell_sizeof c =
     (case entity c of
        NoEntity \<Rightarrow> 0
      | Content b \<Rightarrow> if b \<noteq> [] then int (length b) else 0
      | Arguments as kw \<Rightarrow> 2)"

section \<open>MemoryManager (memory/base.py) and the three tier managers\<close>

text \<open>
  The attributes \<open>_capacity\<close>, \<open>_cells\<close>, \<open>_size\<close>, \<open>_rerank_event\<close>,
  \<open>_running\<close>, \<open>_periodic_task\<close> and \<open>_forced_task\<close> carry the prefix
  \<open>priv\<close>. An \<open>asyncio.Task\<close> is seen through \<open>cancel()\<close> alone: it is
  scheduled or cancelled. Each tier manager adds its own dictionary \<open>cells\<close> to the
  attributes of the base class: its constructor runs the constructor of the base class
  and then sets \<open>cells\<close> to the empty dictionary.
\<close>

datatype task = Scheduled | Cancelled

definition cancel :: "task \<Rightarrow> task" where
  "cancel t = Cancelled"

record 'c MemoryManager =
  priv_capacity :: int
  priv_cells :: "string \<rightharpoonup> 'c"
  priv_size :: int
  priv_rerank_event :: bool
  priv_running :: bool
  priv_periodic_task :: "task option"
  priv_forced_task :: "task option"

record 'c TierManager = "'c MemoryManager" +
  cells :: "string \<rightharpoonup> 'c"

type_synonym RAMManager = "RAMCell TierManager"

type_synonym DiskManager = "DiskCell TierManager"

type_synonym 'a CloudManager = "'a CloudCell TierManager"

definition MemoryManager_init :: "int \<Rightarrow> 'c MemoryManager" where
  "MemoryManager_init cap =
     \<lparr>priv_capacity = cap, priv_cells = Map.empty, priv_size = 0,
      priv_rerank_event = False, priv_running = True,
      priv_periodic_task = None, priv_forced_task = None\<rparr>"

definition TierManager_init :: "int \<Rightarrow> 'c TierManager" where
  "TierManager_init cap = MemoryManager.extend (MemoryManager_init cap) (TierManager.fields Map.empty)"

definition RAMManager_init :: "int \<Rightarrow> RAMManager" where
  "RAMManager_init cap = TierManager_init cap"

definition DiskManager_init :: "int \<Rightarrow> DiskManager" where
  "DiskManager_init cap = TierManager_init cap"

definition CloudManager_init :: "int \<Rightarrow> 'a CloudManager" where
  "CloudManager_init cap = TierManager_init cap"

definition used :: "('c, 'z) MemoryManager_scheme \<Rightarrow> int" where
  "used m = priv_size m"

definition free :: "('c, 'z) MemoryManager_scheme \<Rightarrow> int" where
  "free m = priv_capacity m - priv_size m"

definition capacity :: "('c, 'z) MemoryManager_scheme \<Rightarrow> int" where
  "capacity m = priv_capacity m"

text \<open>
  \<open>start()\<close> sets the flag and then creates the two tasks; \<open>create_task\<close> raises
  \<open>RuntimeError\<close> when no event loop is running (\<open>loop\<close> is false), after the flag
  was set.
\<close>

definition start ::
  "bool \<Rightarrow> ('c, 'z) MemoryManager_scheme \<Rightarrow> (error + unit) \<times> ('c, 'z) MemoryManager_scheme" where
  "start loop m =
     (let m1 = m\<lparr>priv_running := True\<rparr> in
      if \<not> loop then (Inl RuntimeError, m1)
      else
        let m2 = m1\<lparr>priv_periodic_task := Some Scheduled\<rparr>;
            m3 = m2\<lparr>priv_forced_task := Some Scheduled\<rparr>
        in (Inr (), m3))"

definition stop :: "('c, 'z) MemoryManager_scheme \<Rightarrow> ('c, 'z) MemoryManager_scheme" where
  "stop m =
     (let m1 = m\<lparr>priv_running := False\<rparr>;
          m2 = m1\<lparr>priv_rerank_event := False\<rparr>;
          m3 = (case priv_periodic_task m2 of
                  None \<Rightarrow> m2
                | Some t \<Rightarrow> m2\<lparr>priv_periodic_task := Some (cancel t)\<rparr>)
      in case priv_forced_task m3 of
           None \<Rightarrow> m3
         | Some t \<Rightarrow> m3\<lparr>priv_forced_task := Some (cancel t)\<rparr>)"

text \<open>\<open>__getitem__\<close> of each tier manager: \<open>return self.cells[key]\<close>.\<close>

definition RAMManager_getitem :: "RAMManager \<Rightarrow> string \<Rightarrow> (error + RAMCell) \<times> RAMManager" where
  "RAMManager_getitem m k =
     (case cells m k of None \<Rightarrow> (Inl KeyError, m) | Some c \<Rightarrow> (Inr c, m))"

definition DiskManager_getitem :: "DiskManager \<Rightarrow> string \<Rightarrow> (error + DiskCell) \<times> DiskManager" where
  "DiskManager_getitem m k =
     (case cells m k of None \<Rightarrow> (Inl KeyError, m) | Some c \<Rightarrow> (Inr c, m))"

definition CloudManager_getitem ::
  "'a CloudManager \<Rightarrow> string \<Rightarrow> (error + 'a CloudCell) \<times> 'a CloudManager" where
  "CloudManager_getitem m k =
     (case cells m k of None \<Rightarrow> (Inl KeyError, m) | Some c \<Rightarrow> (Inr c, m))"

section \<open>Reachable manager states\<close>

text \<open>
  The states a tier manager passes through: the constructor, then \<open>start()\<close> and
  \<open>stop()\<close> in any order. \<open>__getitem__\<close> returns the state as it was.
\<close>

inductive reachable :: "'c TierManager \<Rightarrow> bool" where
  init: "reachable (TierManager_init cap)"
| started: "reachable m \<Longrightarrow> reachable (snd (start loop m))"
| stopped: "reachable m \<Longrightarrow> reachable (stop m)"

section \<open>Concrete cells and managers\<close>

definition stats0 :: CacheStats where
  "stats0 = CacheStats_init 0 1048576"

definition ram_cell0 :: RAMCell where
  "ram_cell0 = \<lparr>key = ''a'', entity = Some [1, 2, 3], stats = stats0\<rparr>"

definition disk_cell0 :: DiskCell where
  "disk_cell0 = \<lparr>key = ''a'', entity = Some ''/tmp/a'', stats = stats0\<rparr>"

definition cloud_cell0 :: "int CloudCell" where
  "cloud_cell0 =
     \<lparr>key = ''a'', entity = Arguments [7] [(''bucket'', 8)], stats = stats0,
      call_fn = Callable (\<lambda>e. Inr [1, 2, 3])\<rparr>"

definition ram_mgr0 :: RAMManager where
  "ram_mgr0 = (RAMManager_init 1024)\<lparr>cells := [''a'' \<mapsto> ram_cell0]\<rparr>"

definition disk_mgr0 :: DiskManager where
  "disk_mgr0 = (DiskManager_init 1024)\<lparr>cells := [''a'' \<mapsto> disk_cell0]\<rparr>"

definition cloud_mgr0 :: "int CloudManager" where
  "cloud_mgr0 = (CloudManager_init 1024)\<lparr>cells := [''a'' \<mapsto> cloud_cell0]\<rparr>"

section \<open>Helper lemmas\<close>

lemmas init_defs =
  RAMManager_init_def DiskManager_init_def CloudManager_init_def TierManager_init_def
  MemoryManager_init_def MemoryManager.extend_def TierManager.fields_def

lemma stop_twice: "stop (stop m) = stop m"
  by (simp add: stop_def cancel_def Let_def split: option.splits)

lemma stop_repeated: "(stop ^^ Suc n) m = stop m"
  by (induction n) (simp_all add: stop_twice)

lemma stop_not_running: "\<not> priv_running (stop m)"
  by (simp add: stop_def Let_def split: option.splits)

lemma reachable_stopped_fixed:
  "reachable m \<Longrightarrow> \<not> priv_running m \<Longrightarrow> stop m = m"
proof (induction rule: reachable.induct)
  case (init cap)
  then show ?case by (simp add: init_defs)
next
  case (started m loop)
  then show ?case by (simp add: start_def Let_def split: if_splits)
next
  case (stopped m)
  then show ?case by (simp add: stop_twice)
qed

text \<open>
  Outside the two inputs at which a denominator is zero, \<open>score\<close> returns the weighted
  sum and stores the three intermediate values.
\<close>

lemma score_value:
  assumes "now - last_hit s \<noteq> - 3600000000" and "size_bytes s \<noteq> - 1048576"
  shows "score now s =
     (Inr (0.5 * real_of_int (hit_count s)
           + 0.3 * (1 / (1 + total_seconds (now - last_hit s) / 3600))
           + 0.2 * (1 / (1 + real_of_int (size_bytes s) / 2 ^ 20))),
      s\<lparr>recency := 1 / (1 + total_seconds (now - last_hit s) / 3600),
        size_factor := 1 / (1 + real_of_int (size_bytes s) / 2 ^ 20),
        score_field := 0.5 * real_of_int (hit_count s)
           + 0.3 * (1 / (1 + total_seconds (now - last_hit s) / 3600))
           + 0.2 * (1 / (1 + real_of_int (size_bytes s) / 2 ^ 20))\<rparr>)"
proof -
  have "real_of_int (now - last_hit s) \<noteq> real_of_int (- 3600000000)"
    using assms(1) of_int_eq_iff by blast
  then have a: "1 + total_seconds (now - last_hit s) / 3600 \<noteq> 0"
    by (simp add: total_seconds_def field_simps)
  have "real_of_int (size_bytes s) \<noteq> real_of_int (- 1048576)"
    using assms(2) of_int_eq_iff by blast
  then have b: "1 + real_of_int (size_bytes s) / real_of_int (1024 * 1024) \<noteq> 0"
    by (simp add: field_simps)
  have c: "(2::real) ^ 20 = 1048576" by simp
  from a b show ?thesis unfolding score_def Let_def c by simp
qed

lemma score_zero_division:
  "fst (score now (s\<lparr>last_hit := now + 3600000000\<rparr>)) = Inl ZeroDivisionError"
  "fst (score now (s\<lparr>size_bytes := - 1048576\<rparr>)) = Inl ZeroDivisionError"
  by (simp_all add: score_def total_seconds_def Let_def)

lemma hours_nonneg: "last_hit s \<le> now \<Longrightarrow> 0 \<le> total_seconds (now - last_hit s) / 3600"
  by (simp add: total_seconds_def)

lemma hours_mono:
  "t1 \<le> t2 \<Longrightarrow> total_seconds (t1 - last_hit s) / 3600 \<le> total_seconds (t2 - last_hit s) / 3600"
  by (simp add: total_seconds_def divide_right_mono)

lemma recency_antimono:
  assumes "last_hit s \<le> t1" and "t1 \<le> t2"
  shows "1 / (1 + total_seconds (t2 - last_hit s) / 3600)
       \<le> 1 / (1 + total_seconds (t1 - last_hit s) / 3600)"
proof -
  have "0 < 1 + total_seconds (t1 - last_hit s) / 3600"
    using hours_nonneg [OF assms(1)] by linarith
  moreover have "1 + total_seconds (t1 - last_hit s) / 3600
       \<le> 1 + total_seconds (t2 - last_hit s) / 3600"
    using hours_mono [OF assms(2)] by simp
  ultimately show ?thesis by (simp add: frac_le)
qed

lemma weighted_mono: "(a::real) \<le> b \<Longrightarrow> x + 0.3 * a + y \<le> x + 0.3 * b + y"
  by simp

lemma hit_fields:
  "hit_count (hit now sz s) = hit_count s + 1"
  "last_hit (hit now sz s) = now"
  "size_bytes (hit now None s) = size_bytes s"
  "n \<noteq> 0 \<Longrightarrow> size_bytes (hit now (Some n) s) = n"
  "size_bytes (hit now (Some 0) s) = size_bytes s"
  by (simp_all add: hit_def Let_def split: option.splits)

lemma CloudCell_get_no_content: "CloudCell_get c \<noteq> Inr (Some b)"
  by (simp add: CloudCell_get_def split: sum.splits)


section \<open>The score of a cell\<close>

text \<open>
  Claim C1. Reading \<open>score\<close> at the clock reading \<open>now\<close> returns
  \<open>0.5 * hit_count + 0.3 * recency + 0.2 * size_factor\<close> with
  \<open>recency = 1 / (1 + h)\<close>, \<open>h\<close> the hours elapsed since \<open>last_hit\<close>, and
  \<open>size_factor = 1 / (1 + size / 2^20)\<close>. The value is computed afresh on every read:
  a second read at \<open>now'\<close>, made on the object as the first read left it, returns the
  sum for \<open>now'\<close>, and whatever the fields \<open>recency\<close>, \<open>size_factor\<close> and
  \<open>_score\<close> held before the read plays no part. The size is a byte count and the
  reads are not earlier than \<open>last_hit\<close>.
\<close>

theorem score_recomputed_on_read:
  assumes "last_hit s \<le> now" and "now \<le> now'" and "0 \<le> size_bytes s"
  shows "fst (score now s) =
           Inr (0.5 * real_of_int (hit_count s)
                + 0.3 * (1 / (1 + total_seconds (now - last_hit s) / 3600))
                + 0.2 * (1 / (1 + real_of_int (size_bytes s) / 2 ^ 20)))
       \<and> fst (score now' (snd (score now s))) =
           Inr (0.5 * real_of_int (hit_count s)
                + 0.3 * (1 / (1 + total_seconds (now' - last_hit s) / 3600))
                + 0.2 * (1 / (1 + real_of_int (size_bytes s) / 2 ^ 20)))
       \<and> fst (score now (s\<lparr>recency := r, size_factor := f, score_field := c\<rparr>)) =
           fst (score now s)"
proof -
  have n1: "now - last_hit s \<noteq> - 3600000000" and n2: "now' - last_hit s \<noteq> - 3600000000"
    and n3: "size_bytes s \<noteq> - 1048576"
    using assms by simp_all
  have first: "fst (score now s) =
           Inr (0.5 * real_of_int (hit_count s)
                + 0.3 * (1 / (1 + total_seconds (now - last_hit s) / 3600))
                + 0.2 * (1 / (1 + real_of_int (size_bytes s) / 2 ^ 20)))"
    by (simp add: score_value [OF n1 n3])
  have second: "fst (score now' (snd (score now s))) =
           Inr (0.5 * real_of_int (hit_count s)
                + 0.3 * (1 / (1 + total_seconds (now' - last_hit s) / 3600))
                + 0.2 * (1 / (1 + real_of_int (size_bytes s) / 2 ^ 20)))"
    using n2 n3 by (simp add: score_value [OF n1 n3] score_value)
  have third: "fst (score now (s\<lparr>recency := r, size_factor := f, score_field := c\<rparr>)) =
           fst (score now s)"
    using n1 n3 by (simp add: score_value)
  from first second third show ?thesis by blast
qed

theorem score_recomputed_on_read_witness:
  "last_hit stats0 \<le> 3600000000 \<and> (3600000000 :: int) \<le> 10800000000
   \<and> 0 \<le> size_bytes stats0
   \<and> fst (score 3600000000 stats0) = Inr (1 / 4)
   \<and> fst (score 10800000000 (snd (score 3600000000 stats0))) = Inr (7 / 40)
   \<and> fst (score 3600000000 (stats0\<lparr>recency := 9, size_factor := 9, score_field := 9\<rparr>)) =
       fst (score 3600000000 stats0)"
proof -
  have h1: "last_hit stats0 \<le> 3600000000" and h2: "(3600000000 :: int) \<le> 10800000000"
    and h3: "0 \<le> size_bytes stats0"
    by (simp_all add: stats0_def CacheStats_init_def)
  show ?thesis
    using h1 h2 h3 score_recomputed_on_read [OF h1 h2 h3, of 9 9 9]
    by (simp add: stats0_def CacheStats_init_def total_seconds_def)
qed

text \<open>
  Claim C3. With no hit in between, the score does not increase as time advances: for
  two reads at \<open>t1 \<le> t2\<close>, neither earlier than \<open>last_hit\<close>, the second made on the
  object as the first left it, both reads return a value and the later value is at most
  the earlier one. The hit count and the size are those of the same object.
\<close>

theorem score_idle_nonincreasing:
  assumes "last_hit s \<le> t1" and "t1 \<le> t2" and "0 \<le> size_bytes s"
  shows "\<exists>v1 v2. fst (score t1 s) = Inr v1
           \<and> fst (score t2 (snd (score t1 s))) = Inr v2
           \<and> fst (score t2 s) = Inr v2
           \<and> v2 \<le> v1"
proof -
  have n1: "t1 - last_hit s \<noteq> - 3600000000" and n2: "t2 - last_hit s \<noteq> - 3600000000"
    and n3: "size_bytes s \<noteq> - 1048576"
    using assms by simp_all
  let ?v = "\<lambda>t. 0.5 * real_of_int (hit_count s)
                + 0.3 * (1 / (1 + total_seconds (t - last_hit s) / 3600))
                + 0.2 * (1 / (1 + real_of_int (size_bytes s) / 2 ^ 20))"
  have a: "fst (score t1 s) = Inr (?v t1)"
    by (simp add: score_value [OF n1 n3])
  have b: "fst (score t2 (snd (score t1 s))) = Inr (?v t2)"
    using n2 n3 by (simp add: score_value [OF n1 n3] score_value)
  have c: "fst (score t2 s) = Inr (?v t2)"
    by (simp add: score_value [OF n2 n3])
  have d: "?v t2 \<le> ?v t1"
    by (rule weighted_mono [OF recency_antimono [OF assms(1) assms(2)]])
  from a b c d show ?thesis by blast
qed

theorem score_idle_nonincreasing_witness:
  "last_hit stats0 \<le> 0 \<and> (0 :: int) \<le> 3600000000 \<and> 0 \<le> size_bytes stats0
   \<and> (\<exists>v1 v2. fst (score 0 stats0) = Inr v1
           \<and> fst (score 3600000000 (snd (score 0 stats0))) = Inr v2
           \<and> fst (score 3600000000 stats0) = Inr v2
           \<and> v2 \<le> v1)"
proof -
  have h1: "last_hit stats0 \<le> 0" and h2: "(0 :: int) \<le> 3600000000"
    and h3: "0 \<le> size_bytes stats0"
    by (simp_all add: stats0_def CacheStats_init_def)
  show ?thesis
    using h1 h2 h3 score_idle_nonincreasing [OF h1 h2 h3] by blast
qed

section \<open>Recording a hit\<close>

text \<open>
  Claim C5. \<open>hit(size)\<close> adds one to \<open>hit_count\<close> and sets \<open>last_hit\<close> to the
  clock reading, and it cannot fail. A size argument of \<open>0\<close> is given but is not
  stored: on an object whose size is \<open>5\<close>, \<open>hit(0)\<close> leaves the size at \<open>5\<close>,
  where the claim has it overwritten with \<open>0\<close>.
\<close>

theorem hit_zero_size_not_stored:
  "size_bytes (hit 7 (Some 0) (CacheStats_init 0 5)) = 5
   \<and> hit_count (hit 7 (Some 0) (CacheStats_init 0 5)) = 1
   \<and> last_hit (hit 7 (Some 0) (CacheStats_init 0 5)) = 7"
  by (simp add: hit_def CacheStats_init_def Let_def)


section \<open>Reading a key from a tier manager\<close>

text \<open>
  Claim C2, as the code has it. In each of the three tier managers, \<open>get(key)\<close> on an
  absent key fails with \<open>KeyError\<close> and leaves the manager as it was; on a present
  key it returns the stored cell and again leaves the manager as it was, so the cell's
  stats are untouched and no hit is recorded.
\<close>

theorem getitem_returns_stored_cell:
  "(cells mr k = None \<longrightarrow> RAMManager_getitem mr k = (Inl KeyError, mr))
   \<and> (cells mr k = Some cr \<longrightarrow> RAMManager_getitem mr k = (Inr cr, mr))
   \<and> (cells md k = None \<longrightarrow> DiskManager_getitem md k = (Inl KeyError, md))
   \<and> (cells md k = Some cd \<longrightarrow> DiskManager_getitem md k = (Inr cd, md))
   \<and> (cells mc k = None \<longrightarrow> CloudManager_getitem mc k = (Inl KeyError, mc))
   \<and> (cells mc k = Some cc \<longrightarrow> CloudManager_getitem mc k = (Inr cc, mc))"
  by (simp add: RAMManager_getitem_def DiskManager_getitem_def CloudManager_getitem_def)

theorem getitem_returns_stored_cell_witness:
  "cells ram_mgr0 ''b'' = None \<and> cells disk_mgr0 ''b'' = None \<and> cells cloud_mgr0 ''b'' = None
   \<and> RAMManager_getitem ram_mgr0 ''b'' = (Inl KeyError, ram_mgr0)
   \<and> DiskManager_getitem disk_mgr0 ''b'' = (Inl KeyError, disk_mgr0)
   \<and> CloudManager_getitem cloud_mgr0 ''b'' = (Inl KeyError, cloud_mgr0)
   \<and> cells ram_mgr0 ''a'' = Some ram_cell0 \<and> cells disk_mgr0 ''a'' = Some disk_cell0
   \<and> cells cloud_mgr0 ''a'' = Some cloud_cell0
   \<and> RAMManager_getitem ram_mgr0 ''a'' = (Inr ram_cell0, ram_mgr0)
   \<and> DiskManager_getitem disk_mgr0 ''a'' = (Inr disk_cell0, disk_mgr0)
   \<and> CloudManager_getitem cloud_mgr0 ''a'' = (Inr cloud_cell0, cloud_mgr0)"
proof -
  have absent: "cells ram_mgr0 ''b'' = None" "cells disk_mgr0 ''b'' = None"
    "cells cloud_mgr0 ''b'' = None"
    by (simp_all add: ram_mgr0_def disk_mgr0_def cloud_mgr0_def)
  have present: "cells ram_mgr0 ''a'' = Some ram_cell0" "cells disk_mgr0 ''a'' = Some disk_cell0"
    "cells cloud_mgr0 ''a'' = Some cloud_cell0"
    by (simp_all add: ram_mgr0_def disk_mgr0_def cloud_mgr0_def)
  show ?thesis
    using absent present
      getitem_returns_stored_cell [of ram_mgr0 "''b''" ram_cell0 disk_mgr0 disk_cell0
        cloud_mgr0 cloud_cell0]
      getitem_returns_stored_cell [of ram_mgr0 "''a''" ram_cell0 disk_mgr0 disk_cell0
        cloud_mgr0 cloud_cell0]
    by simp
qed

text \<open>
  The claim as written fails: after \<open>get\<close> of the present key \<open>a\<close>, the cell
  returned and the cell stored are the cell as it was, with hit count \<open>0\<close>, while a
  recorded hit would have made it \<open>1\<close>.
\<close>

theorem getitem_records_no_hit_counterexample:
  "fst (RAMManager_getitem ram_mgr0 ''a'') = Inr ram_cell0
   \<and> cells (snd (RAMManager_getitem ram_mgr0 ''a'')) ''a'' = Some ram_cell0
   \<and> hit_count (stats ram_cell0) = 0
   \<and> hit_count (hit 7 None (stats ram_cell0)) = 1"
  by (simp add: RAMManager_getitem_def ram_mgr0_def ram_cell0_def stats0_def
      CacheStats_init_def hit_def Let_def)

text \<open>
  Claim C4, as the code has it. \<open>get(key)\<close> on a present key records no hit: the cell
  it returns and the cell it leaves under the key have the stats they had, so a read of
  the score at any clock reading gives what it would have given without the
  \<open>get\<close>. What raises the score is a recorded hit: after \<open>hit()\<close> with no size
  given at a clock reading \<open>t\<close> not earlier than \<open>last_hit\<close>, the score read at any
  \<open>t' \<ge> t\<close> is strictly greater than the score read at \<open>t'\<close> without the hit.
\<close>

theorem getitem_keeps_score_hit_raises_it:
  assumes "cells mr k = Some cr" and "cells md k = Some cd" and "cells mc k = Some cc"
    and "last_hit s \<le> t" and "t \<le> t'" and "0 \<le> size_bytes s"
  shows "map_option (score t' \<circ> stats) (cells (snd (RAMManager_getitem mr k)) k)
           = Some (score t' (stats cr))
       \<and> map_sum id (score t' \<circ> stats) (fst (RAMManager_getitem mr k))
           = Inr (score t' (stats cr))
       \<and> map_option (score t' \<circ> stats) (cells (snd (DiskManager_getitem md k)) k)
           = Some (score t' (stats cd))
       \<and> map_sum id (score t' \<circ> stats) (fst (DiskManager_getitem md k))
           = Inr (score t' (stats cd))
       \<and> map_option (score t' \<circ> stats) (cells (snd (CloudManager_getitem mc k)) k)
           = Some (score t' (stats cc))
       \<and> map_sum id (score t' \<circ> stats) (fst (CloudManager_getitem mc k))
           = Inr (score t' (stats cc))
       \<and> (\<exists>v w. fst (score t' s) = Inr v \<and> fst (score t' (hit t None s)) = Inr w \<and> v < w)"
proof -
  have gets: "RAMManager_getitem mr k = (Inr cr, mr)" "DiskManager_getitem md k = (Inr cd, md)"
    "CloudManager_getitem mc k = (Inr cc, mc)"
    using assms(1-3)
    by (simp_all add: RAMManager_getitem_def DiskManager_getitem_def CloudManager_getitem_def)
  have n1: "t' - last_hit s \<noteq> - 3600000000" and n2: "t' - t \<noteq> - 3600000000"
    and n3: "size_bytes s \<noteq> - 1048576"
    using assms(4-6) by simp_all
  let ?r = "1 / (1 + total_seconds (t' - last_hit s) / 3600)"
  let ?q = "1 / (1 + total_seconds (t' - t) / 3600)"
  let ?f = "1 / (1 + real_of_int (size_bytes s) / 2 ^ 20)"
  have before: "fst (score t' s) = Inr (0.5 * real_of_int (hit_count s) + 0.3 * ?r + 0.2 * ?f)"
    by (simp add: score_value [OF n1 n3])
  have after: "fst (score t' (hit t None s))
      = Inr (0.5 * real_of_int (hit_count s + 1) + 0.3 * ?q + 0.2 * ?f)"
    using n2 n3 by (simp add: score_value hit_fields)
  have "total_seconds (t' - t) / 3600 \<le> total_seconds (t' - last_hit s) / 3600"
    using assms(4) by (simp add: total_seconds_def divide_right_mono)
  moreover have "0 \<le> total_seconds (t' - t) / 3600"
    using assms(5) by (simp add: total_seconds_def)
  ultimately have "?r \<le> ?q"
    by (simp add: frac_le)
  then have "0.3 * ?r \<le> 0.3 * ?q"
    by (rule mult_left_mono) simp
  moreover have "0.5 * real_of_int (hit_count s) < 0.5 * real_of_int (hit_count s + 1)"
    by simp
  ultimately have less: "0.5 * real_of_int (hit_count s) + 0.3 * ?r + 0.2 * ?f
      < 0.5 * real_of_int (hit_count s + 1) + 0.3 * ?q + 0.2 * ?f"
    by linarith
  from before after less
  have "\<exists>v w. fst (score t' s) = Inr v \<and> fst (score t' (hit t None s)) = Inr w \<and> v < w"
    by blast
  then show ?thesis
    using assms(1-3) by (simp add: gets)
qed

theorem getitem_keeps_score_hit_raises_it_witness:
  "cells ram_mgr0 ''a'' = Some ram_cell0 \<and> cells disk_mgr0 ''a'' = Some disk_cell0
   \<and> cells cloud_mgr0 ''a'' = Some cloud_cell0
   \<and> last_hit stats0 \<le> 3600000000 \<and> (3600000000 :: int) \<le> 3600000000
   \<and> 0 \<le> size_bytes stats0
   \<and> map_option (score 3600000000 \<circ> stats)
        (cells (snd (RAMManager_getitem ram_mgr0 ''a'')) ''a'')
        = Some (score 3600000000 (stats ram_cell0))
   \<and> (\<exists>v w. fst (score 3600000000 stats0) = Inr v
        \<and> fst (score 3600000000 (hit 3600000000 None stats0)) = Inr w \<and> v < w)"
proof -
  have p: "cells ram_mgr0 ''a'' = Some ram_cell0" "cells disk_mgr0 ''a'' = Some disk_cell0"
    "cells cloud_mgr0 ''a'' = Some cloud_cell0"
    by (simp_all add: ram_mgr0_def disk_mgr0_def cloud_mgr0_def)
  have h: "last_hit stats0 \<le> 3600000000" "(3600000000 :: int) \<le> 3600000000"
    "0 \<le> size_bytes stats0"
    by (simp_all add: stats0_def CacheStats_init_def)
  show ?thesis
    using p h getitem_keeps_score_hit_raises_it [OF p h] by blast
qed

text \<open>
  The claim as written fails: one hour after the last hit the score of the cell under
  \<open>a\<close> is \<open>1/4\<close>, and after \<open>get\<close> the score of the cell returned and of the cell
  stored, read at the same clock reading, is \<open>1/4\<close> again, not more.
\<close>

theorem getitem_score_unchanged_counterexample:
  "fst (score 3600000000 (stats ram_cell0)) = Inr (1 / 4)
   \<and> map_sum id (fst \<circ> score 3600000000 \<circ> stats) (fst (RAMManager_getitem ram_mgr0 ''a''))
       = Inr (Inr (1 / 4))
   \<and> map_option (fst \<circ> score 3600000000 \<circ> stats)
        (cells (snd (RAMManager_getitem ram_mgr0 ''a'')) ''a'')
       = Some (Inr (1 / 4))"
  by (simp add: RAMManager_getitem_def ram_mgr0_def ram_cell0_def stats0_def
      CacheStats_init_def score_def total_seconds_def Let_def)


section \<open>Cloud cells\<close>

text \<open>
  Claim C6. Reading a \<open>CloudCell\<close> awaits \<open>call_fn\<close> on the stored arguments, and
  the claim has the resolved result returned. On the cell \<open>cloud_cell0\<close> the awaited
  call resolves to the three bytes \<open>1, 2, 3\<close>, and \<open>__get__\<close> returns \<open>None\<close>.
\<close>

theorem cloud_get_returns_none:
  "await_call cloud_cell0 = Inr [1, 2, 3] \<and> CloudCell_get cloud_cell0 = Inr None"
  by (simp add: await_call_def CloudCell_get_def cloud_cell0_def)

text \<open>
  Claim C7, as the code has it. \<open>sizeof\<close> of a \<open>CloudCell\<close> is the byte length of
  the content last stored with \<open>write\<close>, and \<open>0\<close> after \<open>delete\<close>; it does not
  depend on \<open>call_fn\<close>, so neither on whether the remote call was awaited nor on what
  it resolved to.
\<close>

theorem cloud_sizeof_stored_content:
  "CloudCell_sizeof (CloudCell_set v c) = int (length v)
   \<and> CloudCell_sizeof (CloudCell_del c) = 0
   \<and> CloudCell_sizeof (c\<lparr>call_fn := g\<rparr>) = CloudCell_sizeof c"
  by (simp add: CloudCell_sizeof_def CloudCell_set_def CloudCell_del_def)

text \<open>
  The claim as written fails: the cell \<open>cloud_cell0\<close> was never read, its call
  resolves to three bytes, and \<open>sizeof\<close> returns \<open>2\<close>, which is neither \<open>0\<close>
  nor the size of the resolved result.
\<close>

theorem cloud_sizeof_counterexample:
  "CloudCell_sizeof cloud_cell0 = 2
   \<and> CloudCell_sizeof cloud_cell0 \<noteq> 0
   \<and> await_call cloud_cell0 = Inr [1, 2, 3]
   \<and> CloudCell_sizeof cloud_cell0 \<noteq> int (length [1 :: 8 word, 2, 3])"
  by (simp add: CloudCell_sizeof_def await_call_def cloud_cell0_def)

section \<open>The life cycle of a manager\<close>

text \<open>
  \<open>start()\<close> flags the manager running, also when creating the tasks fails, and
  \<open>get\<close> never touches the flag.
\<close>

lemma start_running: "priv_running (snd (start loop m))"
  by (simp add: start_def Let_def)

lemma getitem_running:
  "priv_running (snd (RAMManager_getitem mr k)) = priv_running mr"
  "priv_running (snd (DiskManager_getitem md k)) = priv_running md"
  "priv_running (snd (CloudManager_getitem mc k)) = priv_running mc"
  by (simp_all add: RAMManager_getitem_def DiskManager_getitem_def CloudManager_getitem_def
      split: option.splits)

text \<open>
  Claim C8. A newly constructed manager should be stopped until \<open>start()\<close> is called.
  The constructor sets \<open>_running\<close> to \<open>True\<close>: each of the three tier managers,
  built with the default capacity, is flagged running before any \<open>start()\<close>, with no
  background task created.
\<close>

theorem new_manager_is_running:
  "priv_running (RAMManager_init (1024 * 1024 * 1024))
   \<and> priv_running (DiskManager_init (1024 * 1024 * 1024))
   \<and> priv_running (CloudManager_init (1024 * 1024 * 1024) :: int CloudManager)
   \<and> priv_periodic_task (RAMManager_init (1024 * 1024 * 1024)) = None
   \<and> priv_forced_task (RAMManager_init (1024 * 1024 * 1024)) = None"
  by (simp add: init_defs)

text \<open>
  Repeating \<open>stop()\<close>. The call cannot fail, and in every state a second
  \<open>stop()\<close> changes nothing, any number of calls in a row leaves the state of a single
  call, the manager is not running afterwards, and in a reachable state whose flag is
  already false \<open>stop()\<close> changes nothing at all.
\<close>

theorem stop_idempotent:
  "stop (stop m) = stop m
   \<and> (stop ^^ Suc n) m = stop m
   \<and> \<not> priv_running (stop m)
   \<and> (reachable m' \<and> \<not> priv_running m' \<longrightarrow> stop m' = m')"
  using stop_twice [of m] stop_repeated [of n m] stop_not_running [of m]
    reachable_stopped_fixed [of m']
  by blast

theorem stop_idempotent_witness:
  "reachable (stop (snd (start True (RAMManager_init 1024))))
   \<and> \<not> priv_running (stop (snd (start True (RAMManager_init 1024))))
   \<and> stop (stop (snd (start True (RAMManager_init 1024))))
       = stop (snd (start True (RAMManager_init 1024)))
   \<and> stop (stop (RAMManager_init 1024)) = stop (RAMManager_init 1024)
   \<and> (stop ^^ Suc 2) (RAMManager_init 1024) = stop (RAMManager_init 1024)"
proof -
  have r: "reachable (stop (snd (start True (RAMManager_init 1024))))"
    unfolding RAMManager_init_def
    by (intro reachable.stopped reachable.started reachable.init)
  have q: "\<not> priv_running (stop (snd (start True (RAMManager_init 1024))))"
    by (rule stop_not_running)
  show ?thesis
    using r q
      stop_idempotent [of "RAMManager_init 1024" 2 "stop (snd (start True (RAMManager_init 1024)))"]
    by blast
qed

text \<open>
  Claim C9. \<open>stop()\<close> on a manager that was never started should be a no-op, as
  it is on a manager that was stopped before. The constructor leaves the flag
  \<open>_running\<close> set, so on a newly constructed manager the first \<open>stop()\<close>
  clears the flag and the state after the call differs from the state before it; only
  the calls that follow change nothing.
\<close>

theorem stop_before_start_changes_state:
  "priv_running (RAMManager_init (1024 * 1024 * 1024))
   \<and> \<not> priv_running (stop (RAMManager_init (1024 * 1024 * 1024)))
   \<and> stop (RAMManager_init (1024 * 1024 * 1024)) \<noteq> RAMManager_init (1024 * 1024 * 1024)
   \<and> stop (stop (RAMManager_init (1024 * 1024 * 1024)))
       = stop (RAMManager_init (1024 * 1024 * 1024))"
proof -
  have a: "priv_running (RAMManager_init (1024 * 1024 * 1024))"
    by (simp add: init_defs)
  have b: "\<not> priv_running (stop (RAMManager_init (1024 * 1024 * 1024)))"
    by (rule stop_not_running)
  from a b have c: "stop (RAMManager_init (1024 * 1024 * 1024)) \<noteq> RAMManager_init (1024 * 1024 * 1024)"
    by metis
  from a b c stop_twice [of "RAMManager_init (1024 * 1024 * 1024)"] show ?thesis
    by blast
qed

text \<open>
  Claim C10. In every state of a manager \<open>used + free = capacity\<close>, and the capacity
  is the one given to the constructor and is kept by \<open>start()\<close>, by \<open>stop()\<close> and
  by \<open>get\<close> in each tier.
\<close>

theorem used_free_capacity:
  "used m + free m = capacity m
   \<and> free m = capacity m - used m
   \<and> capacity (TierManager_init cap :: 'c TierManager) = cap
   \<and> capacity (snd (start loop m)) = capacity m
   \<and> capacity (stop m) = capacity m
   \<and> capacity (snd (RAMManager_getitem mr k)) = capacity mr
   \<and> capacity (snd (DiskManager_getitem md k)) = capacity md
   \<and> capacity (snd (CloudManager_getitem mc k)) = capacity mc"
  by (simp add: used_def free_def capacity_def init_defs start_def stop_def Let_def
      RAMManager_getitem_def DiskManager_getitem_def CloudManager_getitem_def
      split: option.splits)


end
